theory Spec2Isabelle
  imports Complex_Main "HOL-Library.Sublist"
begin

section \<open>Python values, exceptions and the library interface\<close>

text \<open>
  The agents of \<^verbatim>\<open>itvalleyorion\<close> exchange JSON documents with a backend, call
  user-supplied tool functions and build pydantic models. Values are the Python values
  that JSON decoding and tool functions produce; \<open>PObject\<close> stands for any other object
  (named by its class). Strings are lists of characters, one per code point (the code
  points below 256 are representable).

  An exception derived from \<^verbatim>\<open>Exception\<close> is a \<open>pyexn\<close>: its class name and the text
  that \<^verbatim>\<open>str(e)\<close> gives. The library and the HTTP exchange raise such exceptions only.
  User code (a tool function) can also raise an exception that derives from
  \<^verbatim>\<open>BaseException\<close> and not from \<^verbatim>\<open>Exception\<close> (\<^verbatim>\<open>SystemExit\<close>,
  \<^verbatim>\<open>KeyboardInterrupt\<close>, \<^verbatim>\<open>GeneratorExit\<close>); an \<^verbatim>\<open>except Exception\<close> handler does
  not catch it. What a call can raise is a \<open>raised\<close>: \<open>Exc e\<close> for the first kind,
  \<open>BaseExc\<close> with the class name and the text for the second.
\<close>

datatype pyval =
    PNone
  | PBool bool
  | PInt int
  | PFloat real
  | PStr string
  | PList "pyval list"
  | PDict "(string \<times> pyval) list"
  | PObject string

datatype pyexn = PyExn (exn_class: string) (exn_str: string)

datatype raised = Exc pyexn | BaseExc (base_class: string) (base_str: string)

text \<open>
  The functions of the Python library that the agents call are parameters of the model:
  \<^verbatim>\<open>json.loads\<close>, \<^verbatim>\<open>json.dumps\<close>, \<^verbatim>\<open>re.search(pattern, text, re.IGNORECASE)\<close>
  followed by \<^verbatim>\<open>group(1)\<close> (\<open>None\<close> when there is no match), \<^verbatim>\<open>str.strip()\<close>,
  \<^verbatim>\<open>str.lower()\<close>, \<^verbatim>\<open>str.title()\<close>, \<^verbatim>\<open>float\<close> and \<^verbatim>\<open>int\<close> of a string.
\<close>

record pylib =
  json_loads :: "string \<Rightarrow> pyexn + pyval"
  json_dumps :: "pyval \<Rightarrow> pyexn + string"
  re_search :: "string \<Rightarrow> string \<Rightarrow> pyexn + string option"
  str_strip :: "string \<Rightarrow> string"
  str_lower :: "string \<Rightarrow> string"
  str_title :: "string \<Rightarrow> string"
  py_float :: "string \<Rightarrow> pyexn + real"
  py_int :: "string \<Rightarrow> pyexn + int"

subsection \<open>String operations written out\<close>

text \<open>\<^verbatim>\<open>sub in s\<close> for strings.\<close>

fun str_contains :: "string \<Rightarrow> string \<Rightarrow> bool" where
  "str_contains [] sub = (sub = [])"
| "str_contains (x # xs) sub = (prefix sub (x # xs) \<or> str_contains xs sub)"

text \<open>\<^verbatim>\<open>s.find(c)\<close> and \<^verbatim>\<open>s.rfind(c)\<close> for a one-character \<open>c\<close>: the first and the
  last index of \<open>c\<close>, or \<open>-1\<close>.\<close>

definition str_find :: "char \<Rightarrow> string \<Rightarrow> int" where
  "str_find c s =
     (if c \<in> set s then int (length (takeWhile (\<lambda>x. x \<noteq> c) s)) else - 1)"

definition str_rfind :: "char \<Rightarrow> string \<Rightarrow> int" where
  "str_rfind c s =
     (if c \<in> set s
      then int (length s) - 1 - int (length (takeWhile (\<lambda>x. x \<noteq> c) (rev s)))
      else - 1)"

text \<open>\<^verbatim>\<open>s[i:j]\<close> for \<open>0 \<le> i\<close> and \<open>0 \<le> j\<close> (the only use in the source is guarded
  by \<^verbatim>\<open>start_idx >= 0 and end_idx > start_idx\<close>).\<close>

definition str_slice :: "string \<Rightarrow> int \<Rightarrow> int \<Rightarrow> string" where
  "str_slice s i j = drop (nat i) (take (nat j) s)"

definition startswith :: "string \<Rightarrow> char \<Rightarrow> bool" where
  "startswith s c = (s \<noteq> [] \<and> hd s = c)"

definition endswith :: "string \<Rightarrow> char \<Rightarrow> bool" where
  "endswith s c = (s \<noteq> [] \<and> last s = c)"

text \<open>\<^verbatim>\<open>s[1:-1]\<close>.\<close>

definition str_inner :: "string \<Rightarrow> string" where
  "str_inner s = drop 1 (butlast s)"

text \<open>\<^verbatim>\<open>s.strip('[]')\<close>.\<close>

definition strip_brackets :: "string \<Rightarrow> string" where
  "strip_brackets s =
     rev (dropWhile (\<lambda>c. c = CHR ''['' \<or> c = CHR '']'')
       (rev (dropWhile (\<lambda>c. c = CHR ''['' \<or> c = CHR '']'') s)))"

text \<open>\<^verbatim>\<open>s.split(c)\<close>.\<close>

fun str_split :: "char \<Rightarrow> string \<Rightarrow> string list" where
  "str_split c [] = [[]]"
| "str_split c (x # xs) =
     (if x = c then [] # str_split c xs
      else (case str_split c xs of [] \<Rightarrow> [[x]] | h # t \<Rightarrow> (x # h) # t))"

text \<open>\<^verbatim>\<open>str(n)\<close> for an integer, as an f-string formats it.\<close>

fun str_nat :: "nat \<Rightarrow> string" where
  "str_nat n =
     (if n < 10 then [''0123456789'' ! n]
      else str_nat (n div 10) @ [''0123456789'' ! (n mod 10)])"

definition str_int :: "int \<Rightarrow> string" where
  "str_int i = (if i < 0 then CHR ''-'' # str_nat (nat (- i)) else str_nat (nat i))"

text \<open>\<^verbatim>\<open>d[k] = v\<close> on a dictionary kept in insertion order.\<close>

definition dict_set :: "(string \<times> pyval) list \<Rightarrow> string \<Rightarrow> pyval \<Rightarrow> (string \<times> pyval) list" where
  "dict_set d k v =
     (if k \<in> fst ` set d then map (\<lambda>(k', v'). if k' = k then (k', v) else (k', v')) d
      else d @ [(k, v)])"

section \<open>Pydantic models, tools and agents\<close>

text \<open>
  A pydantic model class: its \<^verbatim>\<open>__name__\<close>, its \<^verbatim>\<open>__fields__\<close> in declaration order
  (each with \<^verbatim>\<open>str(field.type_)\<close> and the optional description) and its constructor
  \<^verbatim>\<open>model_type(**data)\<close>, which validates. An instance is the dictionary that
  \<^verbatim>\<open>.dict()\<close> returns.
\<close>

datatype basemodel = BaseModel (model_dict: "(string \<times> pyval) list")

record field =
  field_type :: string
  field_description :: "string option"

record model_type =
  model_name :: string
  model_fields :: "(string \<times> field) list"
  model_new :: "pyval \<Rightarrow> pyexn + basemodel"

text \<open>
  An entry of \<^verbatim>\<open>_REGISTERED_TOOLS\<close>. The tool function is user code and may act on the
  outside world, a state of type \<open>'w\<close> that is passed through every external call.
\<close>

record 'w tool =
  tool_function :: "(string \<times> pyval) list \<Rightarrow> 'w \<Rightarrow> (raised + pyval) \<times> 'w"
  tool_name :: string
  tool_description :: string
  tool_parameters :: model_type

record tool_call =
  tc_id :: string
  tc_name :: string
  tc_arguments :: "pyval option"

record delegation =
  dg_id :: string
  dg_agent_id :: int
  dg_input :: "string option"

text \<open>The backend's reply: a key that is absent is \<open>None\<close>.\<close>

record response =
  content :: "string option"
  tool_calls :: "tool_call list option"
  agent_delegations :: "delegation list option"

text \<open>The request body. \<open>tool_results\<close> and \<open>delegation_results\<close> are the keys that
  the loops add; an entry pairs the id of the call with what its execution returned.\<close>

record schema_entry =
  se_type :: string
  se_description :: string

record tool_info =
  ti_name :: string
  ti_description :: string
  ti_parameters :: "(string \<times> schema_entry) list"

record agent_info =
  ai_id :: int
  ai_name :: string
  ai_type :: string
  ai_instructions :: string
  ai_tools :: "(string \<times> string) list option"

record tool_result =
  tool_call_id :: string
  tr_result :: pyval

record delegation_result =
  delegation_id :: string
  dr_result :: string

record payload =
  prompt :: string
  max_tokens :: int
  agent_type :: "string option"
  tools :: "tool_info list option"
  supervised_agents :: "agent_info list option"
  output_schema :: "(string \<times> schema_entry) list option"
  tool_results :: "tool_result list option"
  delegation_results :: "delegation_result list option"

text \<open>
  The environment of a run: the library, the configured API key (the module global and
  the environment variable of \<^verbatim>\<open>auth.py\<close>) and the HTTP exchange
  \<^verbatim>\<open>requests.post(endpoint, json=payload, headers=headers)\<close> followed by
  \<^verbatim>\<open>raise_for_status()\<close> and \<^verbatim>\<open>response.json()\<close>, which is given the bearer key
  and the payload and acts on the world.
\<close>

record 'w env =
  lib :: pylib
  ORION_API_KEY :: "string option"
  environ_ORION_API_KEY :: "string option"
  requests_post :: "string \<Rightarrow> payload \<Rightarrow> 'w \<Rightarrow> (pyexn + response) \<times> 'w"

definition key_not_configured :: pyexn where
  "key_not_configured =
     PyExn ''ValueError''
       (''Chave da API Orion n'' @ [CHR 0xE3] @ ''o configurada. Use set_default_orion_key() ''
        @ ''antes de utilizar os agentes, ou defina a vari'' @ [CHR 0xE1]
        @ ''vel de ambiente ORION_API_KEY.'')"

definition get_orion_key :: "'w env \<Rightarrow> pyexn + string" where
  "get_orion_key E =
     (let key = (case ORION_API_KEY E of
                   Some k \<Rightarrow> if k \<noteq> [] then Some k else environ_ORION_API_KEY E
                 | None \<Rightarrow> environ_ORION_API_KEY E)
      in case key of
           Some k \<Rightarrow> if k \<noteq> [] then Inr k else Inl key_not_configured
         | None \<Rightarrow> Inl key_not_configured)"

record agent_result =
  ar_content :: string
  raw_response :: response

datatype run_result = RAgentResult agent_result | RModel basemodel

record operator =
  op_name :: string
  op_instructions :: string

record 'w analyst =
  an_name :: string
  an_instructions :: string
  an_output_type :: "model_type option"
  an_tools :: "'w tool list"
  an_require_output_type :: bool

text \<open>A supervised agent is an Operator or an Analyst object; it is listed with its
  \<^verbatim>\<open>id()\<close>, by which delegations name it.\<close>

datatype 'w agent = AnOperator operator | AnAnalyst "'w analyst"

record 'w supervisor =
  sup_name :: string
  sup_instructions :: string
  sup_supervised_agents :: "(int \<times> 'w agent) list"
  sup_output_type :: "model_type option"
  sup_tools :: "'w tool list"
  sup_require_output_type :: bool

section \<open>Tool execution\<close>

text \<open>
  \<^verbatim>\<open>_execute_tool_call\<close> has the same body in \<^verbatim>\<open>Analyst\<close> and \<^verbatim>\<open>Supervisor\<close>;
  it reads \<^verbatim>\<open>self.tools\<close> only. The first tool of that name is taken. Validation of
  the arguments, the call and \<^verbatim>\<open>json.dumps\<close> are inside one \<^verbatim>\<open>try\<close>, whose
  handler is \<^verbatim>\<open>except Exception as e\<close> and returns a dictionary with the key
  \<^verbatim>\<open>error\<close>. An exception of the tool function that does not derive from
  \<^verbatim>\<open>Exception\<close> passes the handler and leaves the method.
\<close>

definition tool_not_found :: "string \<Rightarrow> pyval" where
  "tool_not_found name =
     PDict [(''error'',
       PStr (''Ferramenta '' @ [CHR 0x27] @ name @ [CHR 0x27] @ '' n'' @ [CHR 0xE3]
             @ ''o encontrada''))]"

definition tool_error :: "string \<Rightarrow> pyexn \<Rightarrow> pyval" where
  "tool_error name e =
     PDict [(''error'',
       PStr (''Erro ao executar ferramenta '' @ [CHR 0x27] @ name @ [CHR 0x27] @ '': ''
             @ exn_str e))]"

definition execute_tool_call ::
  "pylib \<Rightarrow> 'w tool list \<Rightarrow> tool_call \<Rightarrow> 'w \<Rightarrow> (raised + pyval) \<times> 'w" where
  "execute_tool_call L self_tools tc w =
     (let name = tc_name tc;
          arguments = (case tc_arguments tc of None \<Rightarrow> PDict [] | Some a \<Rightarrow> a)
      in case find (\<lambda>t. tool_name t = name) self_tools of
           None \<Rightarrow> (Inr (tool_not_found name), w)
         | Some tool_info \<Rightarrow>
             (case model_new (tool_parameters tool_info) arguments of
                Inl e \<Rightarrow> (Inr (tool_error name e), w)
              | Inr validated_args \<Rightarrow>
                  (case tool_function tool_info (model_dict validated_args) w of
                     (Inl (Exc e), w') \<Rightarrow> (Inr (tool_error name e), w')
                   | (Inl (BaseExc c m), w') \<Rightarrow> (Inl (BaseExc c m), w')
                   | (Inr result, w') \<Rightarrow>
                       (case json_dumps L result of
                          Inl e \<Rightarrow> (Inr (tool_error name e), w')
                        | Inr s \<Rightarrow> (Inr (PStr s), w')))))"

definition Analyst_execute_tool_call ::
  "pylib \<Rightarrow> 'w analyst \<Rightarrow> tool_call \<Rightarrow> 'w \<Rightarrow> (raised + pyval) \<times> 'w" where
  "Analyst_execute_tool_call L self = execute_tool_call L (an_tools self)"

definition Supervisor_execute_tool_call ::
  "pylib \<Rightarrow> 'w supervisor \<Rightarrow> tool_call \<Rightarrow> 'w \<Rightarrow> (raised + pyval) \<times> 'w" where
  "Supervisor_execute_tool_call L self = execute_tool_call L (sup_tools self)"

section \<open>Structured-output extraction\<close>

text \<open>
  \<^verbatim>\<open>Analyst._parse_output_to_model(self, output, model_type)\<close> tries three strategies, each
  in its own \<^verbatim>\<open>try\<close>. The first two end in \<^verbatim>\<open>except: pass\<close>, which swallows every
  failure; the third ends in \<^verbatim>\<open>except Exception as e\<close>, which raises a
  \<^verbatim>\<open>ValueError\<close> built from \<^verbatim>\<open>str(e)\<close>.
\<close>

subsection \<open>Strategies 1 and 2\<close>

text \<open>\<^verbatim>\<open>data = json.loads(text); return model_type(**data)\<close>: the body of strategy 1 on the
  whole output, and of strategy 2 on the slice.\<close>

definition direct_parse :: "pylib \<Rightarrow> model_type \<Rightarrow> string \<Rightarrow> pyexn + basemodel" where
  "direct_parse L model text =
     (case json_loads L text of
        Inl e \<Rightarrow> Inl e
      | Inr data \<Rightarrow> model_new model data)"

text \<open>The span from the first \<^verbatim>\<open>{\<close> to the last \<^verbatim>\<open>}\<close>, when
  \<^verbatim>\<open>start_idx >= 0 and end_idx > start_idx\<close>.\<close>

definition embedded_block :: "string \<Rightarrow> string option" where
  "embedded_block output =
     (let start_idx = str_find CHR ''{'' output;
          end_idx = str_rfind CHR ''}'' output
      in if start_idx \<ge> 0 \<and> end_idx > start_idx
         then Some (str_slice output start_idx (end_idx + 1))
         else None)"

subsection \<open>Strategy 3: the key-value scan\<close>

text \<open>
  The three patterns of a field, in the order of the source. The first is written in the
  source as an f-string in which \<^verbatim>\<open>\\{.*?\\}\<close> stands for a brace pair of the regular
  expression (Python reads that span as a replacement field and rejects it; the pattern
  below is the regular expression the line spells, with the braces literal).
\<close>

definition quoted_pattern :: "string \<Rightarrow> string" where
  \<open>quoted_pattern field_name =
     [CHR 0x22] @ field_name @ [CHR 0x22, CHR 0x5C] @ ''s*:'' @ [CHR 0x5C]
     @ ''s*(".*?"|'' @ [CHR 0x5C] @ ''d+('' @ [CHR 0x5C] @ ''.'' @ [CHR 0x5C] @ ''d+)?|''
     @ [CHR 0x5C] @ ''[.*?'' @ [CHR 0x5C] @ '']|'' @ [CHR 0x5C] @ ''{.*?'' @ [CHR 0x5C]
     @ ''}|true|false|null)''\<close>

definition plain_pattern :: "string \<Rightarrow> string" where
  "plain_pattern field_name =
     field_name @ [CHR 0x5C] @ ''s*:'' @ [CHR 0x5C] @ ''s*([^,'' @ [CHR 0x5C] @ ''n]+)''"

definition patterns :: "pylib \<Rightarrow> string \<Rightarrow> string list" where
  "patterns L field_name =
     [quoted_pattern field_name, plain_pattern field_name,
      plain_pattern (str_title L field_name)]"

text \<open>The conversion of the captured text, after \<^verbatim>\<open>strip()\<close>.\<close>

definition convert_value :: "pylib \<Rightarrow> string \<Rightarrow> pyval" where
  "convert_value L value_str =
     (if startswith value_str (CHR 0x22) \<and> endswith value_str (CHR 0x22)
      then PStr (str_inner value_str)
      else if str_lower L value_str = ''true'' \<or> str_lower L value_str = ''false''
      then PBool (str_lower L value_str = ''true'')
      else if startswith value_str CHR ''['' \<and> endswith value_str CHR '']''
      then (case json_loads L value_str of
              Inr v \<Rightarrow> v
            | Inl _ \<Rightarrow> PList (map PStr (str_split CHR '','' (strip_brackets value_str))))
      else if CHR ''.'' \<in> set value_str
      then (case py_float L value_str of Inr x \<Rightarrow> PFloat x | Inl _ \<Rightarrow> PStr value_str)
      else (case py_int L value_str of Inr n \<Rightarrow> PInt n | Inl _ \<Rightarrow> PStr value_str))"

text \<open>The inner loop: the first pattern that matches gives the value (\<^verbatim>\<open>break\<close>).\<close>

fun scan_patterns :: "pylib \<Rightarrow> string \<Rightarrow> string list \<Rightarrow> pyexn + pyval option" where
  "scan_patterns L output [] = Inr None"
| "scan_patterns L output (pattern # rest) =
     (case re_search L pattern output of
        Inl e \<Rightarrow> Inl e
      | Inr None \<Rightarrow> scan_patterns L output rest
      | Inr (Some g) \<Rightarrow> Inr (Some (convert_value L (str_strip L g))))"

text \<open>The outer loop over \<^verbatim>\<open>model_type.__fields__\<close>; a field with no match is left out.\<close>

fun scan_fields ::
  "pylib \<Rightarrow> string \<Rightarrow> string list \<Rightarrow> (string \<times> pyval) list \<Rightarrow> pyexn + (string \<times> pyval) list" where
  "scan_fields L output [] data = Inr data"
| "scan_fields L output (field_name # rest) data =
     (case scan_patterns L output (patterns L field_name) of
        Inl e \<Rightarrow> Inl e
      | Inr None \<Rightarrow> scan_fields L output rest data
      | Inr (Some v) \<Rightarrow> scan_fields L output rest (dict_set data field_name v))"

definition key_value_scan :: "pylib \<Rightarrow> model_type \<Rightarrow> string \<Rightarrow> pyexn + basemodel" where
  "key_value_scan L model output =
     (case scan_fields L output (map fst (model_fields model)) [] of
        Inl e \<Rightarrow> Inl e
      | Inr data \<Rightarrow> model_new model (PDict data))"

subsection \<open>The cascade\<close>

text \<open>
  The outcome records which \<^verbatim>\<open>return\<close> of the source produced the instance
  (strategy 1, 2 or 3), or the exception raised at the end.
\<close>

datatype outcome = Direct basemodel | Embedded basemodel | KeyValue basemodel | Failed pyexn

definition extraction_error :: "pyexn \<Rightarrow> pyexn" where
  "extraction_error e =
     PyExn ''ValueError''
       (''N'' @ [CHR 0xE3] @ ''o foi poss'' @ [CHR 0xED] @ ''vel extrair dados estruturados: ''
        @ exn_str e)"

definition parse_cascade :: "pylib \<Rightarrow> 'w analyst \<Rightarrow> string \<Rightarrow> model_type \<Rightarrow> outcome" where
  "parse_cascade L self output model =
     (case direct_parse L model output of
        Inr inst \<Rightarrow> Direct inst
      | Inl _ \<Rightarrow>
          (case map_option (direct_parse L model) (embedded_block output) of
             Some (Inr inst) \<Rightarrow> Embedded inst
           | _ \<Rightarrow>
               (case key_value_scan L model output of
                  Inr inst \<Rightarrow> KeyValue inst
                | Inl e \<Rightarrow> Failed (extraction_error e))))"

definition parse_output_to_model ::
  "pylib \<Rightarrow> 'w analyst \<Rightarrow> string \<Rightarrow> model_type \<Rightarrow> pyexn + basemodel" where
  "parse_output_to_model L self output model =
     (case parse_cascade L self output model of
        Direct inst \<Rightarrow> Inr inst
      | Embedded inst \<Rightarrow> Inr inst
      | KeyValue inst \<Rightarrow> Inr inst
      | Failed e \<Rightarrow> Inl e)"

section \<open>Operator and Analyst\<close>

text \<open>The prompt that every \<^verbatim>\<open>run\<close> builds from the name, the instructions and the
  input text.\<close>

definition full_prompt :: "string \<Rightarrow> string \<Rightarrow> string \<Rightarrow> string" where
  "full_prompt name instructions input_text =
     ''# Instru'' @ [CHR 0xE7, CHR 0xF5] @ ''es para '' @ name @ [CHR 0x0A]
     @ instructions @ [CHR 0x0A, CHR 0x0A]
     @ ''# Entrada'' @ [CHR 0x0A] @ input_text @ [CHR 0x0A, CHR 0x0A]
     @ ''# Sa'' @ [CHR 0xED] @ ''da'' @ [CHR 0x0A]"

definition AgentResult :: "response \<Rightarrow> agent_result" where
  "AgentResult r =
     \<lparr>ar_content = (case content r of None \<Rightarrow> [] | Some c \<Rightarrow> c), raw_response = r\<rparr>"

definition Operator_call_orion_api ::
  "'w env \<Rightarrow> operator \<Rightarrow> string \<Rightarrow> 'w \<Rightarrow> (pyexn + response) \<times> 'w" where
  "Operator_call_orion_api E self p w =
     (case get_orion_key E of
        Inl e \<Rightarrow> (Inl e, w)
      | Inr api_key \<Rightarrow>
          requests_post E api_key
            \<lparr>prompt = p, max_tokens = 1000, agent_type = None, tools = None,
             supervised_agents = None, output_schema = None, tool_results = None,
             delegation_results = None\<rparr> w)"

definition Operator_run ::
  "'w env \<Rightarrow> operator \<Rightarrow> string \<Rightarrow> 'w \<Rightarrow> (pyexn + run_result) \<times> 'w" where
  "Operator_run E self input_text w =
     (case Operator_call_orion_api E self
             (full_prompt (op_name self) (op_instructions self) input_text) w of
        (Inl e, w') \<Rightarrow> (Inl e, w')
      | (Inr r, w') \<Rightarrow> (Inr (RAgentResult (AgentResult r)), w'))"

text \<open>The schema sent to the backend for a model class, and the description of the
  tools.\<close>

definition schema_of :: "model_type \<Rightarrow> (string \<times> schema_entry) list" where
  "schema_of model =
     map (\<lambda>(field_name, f).
            (field_name,
             \<lparr>se_type = field_type f,
              se_description = (case field_description f of None \<Rightarrow> [] | Some d \<Rightarrow> d)\<rparr>))
         (model_fields model)"

definition tools_info_of :: "'w tool list \<Rightarrow> tool_info list" where
  "tools_info_of ts =
     map (\<lambda>tool_data.
            \<lparr>ti_name = tool_name tool_data, ti_description = tool_description tool_data,
             ti_parameters = schema_of (tool_parameters tool_data)\<rparr>) ts"

text \<open>
  \<^verbatim>\<open>Analyst.__init__\<close>. The list of tools is given as the registry entries of the
  callables (the constructor looks each callable up in \<^verbatim>\<open>_REGISTERED_TOOLS\<close>).
\<close>

definition Analyst_init ::
  "string \<Rightarrow> string \<Rightarrow> model_type option \<Rightarrow> 'w tool list \<Rightarrow> bool \<Rightarrow> pyexn + 'w analyst" where
  "Analyst_init name instructions output_type ts require_output_type =
     (if require_output_type \<and> output_type = None
      then Inl (PyExn ''ValueError''
             (''output_type '' @ [CHR 0xE9] @ '' obrigat'' @ [CHR 0xF3]
              @ ''rio quando require_output_type=True''))
      else Inr \<lparr>an_name = name, an_instructions = instructions, an_output_type = output_type,
                an_tools = ts, an_require_output_type = require_output_type\<rparr>)"

text \<open>\<^verbatim>\<open>Analyst._call_orion_api\<close>: one request, then one more request for each tool call
  of the first reply, each carrying the result of that call alone.\<close>

fun Analyst_tool_loop ::
  "'w env \<Rightarrow> 'w analyst \<Rightarrow> string \<Rightarrow> payload \<Rightarrow> tool_call list \<Rightarrow> response \<Rightarrow> 'w
     \<Rightarrow> (raised + response) \<times> 'w" where
  "Analyst_tool_loop E self api_key pl [] result w = (Inr result, w)"
| "Analyst_tool_loop E self api_key pl (tc # rest) result w =
     (case Analyst_execute_tool_call (lib E) self tc w of
        (Inl x, w1) \<Rightarrow> (Inl x, w1)
      | (Inr r, w1) \<Rightarrow>
          (case requests_post E api_key
                  (pl\<lparr>tool_results := Some [\<lparr>tool_call_id = tc_id tc, tr_result = r\<rparr>]\<rparr>) w1 of
             (Inl e, w2) \<Rightarrow> (Inl (Exc e), w2)
           | (Inr result', w2) \<Rightarrow> Analyst_tool_loop E self api_key pl rest result' w2))"

definition nonempty_schema ::
  "(string \<times> schema_entry) list option \<Rightarrow> (string \<times> schema_entry) list option" where
  "nonempty_schema s = (case s of None \<Rightarrow> None | Some d \<Rightarrow> if d \<noteq> [] then Some d else None)"

definition Analyst_call_orion_api ::
  "'w env \<Rightarrow> 'w analyst \<Rightarrow> string \<Rightarrow> tool_info list \<Rightarrow> (string \<times> schema_entry) list option
     \<Rightarrow> 'w \<Rightarrow> (raised + response) \<times> 'w" where
  "Analyst_call_orion_api E self p ts schema w =
     (case get_orion_key E of
        Inl e \<Rightarrow> (Inl (Exc e), w)
      | Inr api_key \<Rightarrow>
          (let pl = \<lparr>prompt = p, max_tokens = 1500, agent_type = Some ''analyst'',
                     tools = Some ts, supervised_agents = None,
                     output_schema = nonempty_schema schema, tool_results = None,
                     delegation_results = None\<rparr>
           in case requests_post E api_key pl w of
                (Inl e, w1) \<Rightarrow> (Inl (Exc e), w1)
              | (Inr result, w1) \<Rightarrow>
                  (case tool_calls result of
                     None \<Rightarrow> (Inr result, w1)
                   | Some tcs \<Rightarrow> Analyst_tool_loop E self api_key pl tcs result w1)))"

text \<open>The \<^verbatim>\<open>ValueError\<close> that \<^verbatim>\<open>run\<close> raises when the output type is required and
  the extraction has failed with \<open>e\<close>.\<close>

definition conversion_error :: "model_type \<Rightarrow> pyexn \<Rightarrow> raised" where
  "conversion_error output_type e =
     Exc (PyExn ''ValueError''
       (''N'' @ [CHR 0xE3] @ ''o foi poss'' @ [CHR 0xED] @ ''vel converter o resultado para ''
        @ model_name output_type @ '': '' @ exn_str e))"

definition Analyst_run ::
  "'w env \<Rightarrow> 'w analyst \<Rightarrow> string \<Rightarrow> 'w \<Rightarrow> (raised + run_result) \<times> 'w" where
  "Analyst_run E self input_text w =
     (case Analyst_call_orion_api E self
             (full_prompt (an_name self) (an_instructions self) input_text)
             (tools_info_of (an_tools self))
             (map_option schema_of (an_output_type self)) w of
        (Inl e, w') \<Rightarrow> (Inl e, w')
      | (Inr r, w') \<Rightarrow>
          (let result = AgentResult r
           in case an_output_type self of
                None \<Rightarrow> (Inr (RAgentResult result), w')
              | Some output_type \<Rightarrow>
                  (case parse_output_to_model (lib E) self (ar_content result) output_type of
                     Inr inst \<Rightarrow> (Inr (RModel inst), w')
                   | Inl e \<Rightarrow>
                       if an_require_output_type self
                       then (Inl (conversion_error output_type e), w')
                       else (Inr (RAgentResult result), w'))))"

section \<open>Supervisor\<close>

text \<open>\<^verbatim>\<open>agent.run(input)\<close> on a supervised agent. An Operator has no tools: what its
  run raises comes from the key lookup or the HTTP exchange.\<close>

definition agent_run ::
  "'w env \<Rightarrow> 'w agent \<Rightarrow> string \<Rightarrow> 'w \<Rightarrow> (raised + run_result) \<times> 'w" where
  "agent_run E a input_text w =
     (case a of
        AnOperator operator \<Rightarrow>
          (case Operator_run E operator input_text w of
             (Inl e, w') \<Rightarrow> (Inl (Exc e), w')
           | (Inr r, w') \<Rightarrow> (Inr r, w'))
      | AnAnalyst analyst \<Rightarrow> Analyst_run E analyst input_text w)"

definition agent_name :: "'w agent \<Rightarrow> string" where
  "agent_name a = (case a of AnOperator operator \<Rightarrow> op_name operator
                          | AnAnalyst analyst \<Rightarrow> an_name analyst)"

definition agent_instructions :: "'w agent \<Rightarrow> string" where
  "agent_instructions a = (case a of AnOperator operator \<Rightarrow> op_instructions operator
                                  | AnAnalyst analyst \<Rightarrow> an_instructions analyst)"

definition agent_not_found :: "int \<Rightarrow> string" where
  "agent_not_found agent_id =
     ''Erro: Agente com ID '' @ str_int agent_id @ '' n'' @ [CHR 0xE3] @ ''o encontrado''"

definition agent_failed :: "string \<Rightarrow> pyexn \<Rightarrow> string" where
  "agent_failed name e = ''Erro ao executar o agente '' @ name @ '': '' @ exn_str e"

text \<open>
  \<^verbatim>\<open>Supervisor._execute_agent_delegation\<close>: the first supervised agent whose
  \<^verbatim>\<open>id()\<close> is the delegation's \<^verbatim>\<open>agent_id\<close> is run; its result becomes a string.
  The run and the conversion are inside a \<^verbatim>\<open>try\<close> whose handler is
  \<^verbatim>\<open>except Exception as e\<close>. A run returns an \<^verbatim>\<open>AgentResult\<close> or a model instance,
  so the last branch of the source (\<^verbatim>\<open>str(result)\<close>) has no case here.
\<close>

definition execute_agent_delegation ::
  "'w env \<Rightarrow> 'w supervisor \<Rightarrow> delegation \<Rightarrow> 'w \<Rightarrow> (raised + string) \<times> 'w" where
  "execute_agent_delegation E self d w =
     (let agent_id = dg_agent_id d;
          input_for_agent = (case dg_input d of None \<Rightarrow> [] | Some i \<Rightarrow> i)
      in case find (\<lambda>a. fst a = agent_id) (sup_supervised_agents self) of
           None \<Rightarrow> (Inr (agent_not_found agent_id), w)
         | Some (_, a) \<Rightarrow>
             (case agent_run E a input_for_agent w of
                (Inl (Exc e), w') \<Rightarrow> (Inr (agent_failed (agent_name a) e), w')
              | (Inl (BaseExc c m), w') \<Rightarrow> (Inl (BaseExc c m), w')
              | (Inr (RAgentResult result), w') \<Rightarrow> (Inr (ar_content result), w')
              | (Inr (RModel result), w') \<Rightarrow>
                  (case json_dumps (lib E) (PDict (model_dict result)) of
                     Inr s \<Rightarrow> (Inr s, w')
                   | Inl e \<Rightarrow> (Inr (agent_failed (agent_name a) e), w'))))"

text \<open>The two \<^verbatim>\<open>for\<close> loops of the orchestration loop, in list order. An exception
  that leaves a call ends the loop.\<close>

fun run_tool_calls ::
  "pylib \<Rightarrow> 'w supervisor \<Rightarrow> tool_call list \<Rightarrow> 'w \<Rightarrow> (raised + tool_result list) \<times> 'w" where
  "run_tool_calls L self [] w = (Inr [], w)"
| "run_tool_calls L self (tc # rest) w =
     (case Supervisor_execute_tool_call L self tc w of
        (Inl x, w1) \<Rightarrow> (Inl x, w1)
      | (Inr r, w1) \<Rightarrow>
          (case run_tool_calls L self rest w1 of
             (Inl x, w2) \<Rightarrow> (Inl x, w2)
           | (Inr rs, w2) \<Rightarrow> (Inr (\<lparr>tool_call_id = tc_id tc, tr_result = r\<rparr> # rs), w2)))"

fun run_delegations ::
  "'w env \<Rightarrow> 'w supervisor \<Rightarrow> delegation list \<Rightarrow> 'w
     \<Rightarrow> (raised + delegation_result list) \<times> 'w" where
  "run_delegations E self [] w = (Inr [], w)"
| "run_delegations E self (d # rest) w =
     (case execute_agent_delegation E self d w of
        (Inl x, w1) \<Rightarrow> (Inl x, w1)
      | (Inr r, w1) \<Rightarrow>
          (case run_delegations E self rest w1 of
             (Inl x, w2) \<Rightarrow> (Inl x, w2)
           | (Inr rs, w2) \<Rightarrow> (Inr (\<lparr>delegation_id = dg_id d, dr_result = r\<rparr> # rs), w2)))"

text \<open>
  The state of the loop of \<^verbatim>\<open>Supervisor._call_orion_api\<close> is \<^verbatim>\<open>needs_more_processing\<close>,
  \<^verbatim>\<open>current_iteration\<close>, \<^verbatim>\<open>payload\<close> and \<^verbatim>\<open>result\<close>. The model adds a trace of the
  exchanges with the backend made by this call, each a payload with what came back.

  The body of the loop has two parts. The first looks for \<^verbatim>\<open>tool_calls\<close> in
  \<^verbatim>\<open>result\<close>; when the key is there it runs the calls, stores the results in the payload,
  posts it and assigns the reply to \<^verbatim>\<open>result\<close>. The second then looks for
  \<^verbatim>\<open>agent_delegations\<close> in \<^verbatim>\<open>result\<close> as it is at that point.
\<close>

type_synonym exchange = "payload \<times> (pyexn + response)"

definition max_iterations :: nat where
  "max_iterations = 10"

definition tool_phase ::
  "'w env \<Rightarrow> 'w supervisor \<Rightarrow> string \<Rightarrow> payload \<Rightarrow> response \<Rightarrow> exchange list \<Rightarrow> 'w
     \<Rightarrow> (raised + bool \<times> payload \<times> response) \<times> exchange list \<times> 'w" where
  "tool_phase E self api_key pl result trace w =
     (case tool_calls result of
        None \<Rightarrow> (Inr (False, pl, result), trace, w)
      | Some tcs \<Rightarrow>
          (case run_tool_calls (lib E) self tcs w of
             (Inl x, w1) \<Rightarrow> (Inl x, trace, w1)
           | (Inr rs, w1) \<Rightarrow>
               (let pl1 = pl\<lparr>tool_results := Some rs\<rparr>
                in case requests_post E api_key pl1 w1 of
                     (Inl e, w2) \<Rightarrow> (Inl (Exc e), trace @ [(pl1, Inl e)], w2)
                   | (Inr result1, w2) \<Rightarrow>
                       (Inr (True, pl1, result1), trace @ [(pl1, Inr result1)], w2))))"

definition delegation_phase ::
  "'w env \<Rightarrow> 'w supervisor \<Rightarrow> string \<Rightarrow> bool \<Rightarrow> payload \<Rightarrow> response \<Rightarrow> exchange list \<Rightarrow> 'w
     \<Rightarrow> (raised + bool \<times> payload \<times> response) \<times> exchange list \<times> 'w" where
  "delegation_phase E self api_key needs_more_processing pl result trace w =
     (case agent_delegations result of
        None \<Rightarrow> (Inr (needs_more_processing, pl, result), trace, w)
      | Some ds \<Rightarrow>
          (case run_delegations E self ds w of
             (Inl x, w1) \<Rightarrow> (Inl x, trace, w1)
           | (Inr rs, w1) \<Rightarrow>
               (let pl1 = pl\<lparr>delegation_results := Some rs\<rparr>
                in case requests_post E api_key pl1 w1 of
                     (Inl e, w2) \<Rightarrow> (Inl (Exc e), trace @ [(pl1, Inl e)], w2)
                   | (Inr result1, w2) \<Rightarrow>
                       (Inr (True, pl1, result1), trace @ [(pl1, Inr result1)], w2))))"

definition loop_body ::
  "'w env \<Rightarrow> 'w supervisor \<Rightarrow> string \<Rightarrow> payload \<Rightarrow> response \<Rightarrow> exchange list \<Rightarrow> 'w
     \<Rightarrow> (raised + bool \<times> payload \<times> response) \<times> exchange list \<times> 'w" where
  "loop_body E self api_key pl result trace w =
     (case tool_phase E self api_key pl result trace w of
        (Inl x, trace1, w1) \<Rightarrow> (Inl x, trace1, w1)
      | (Inr (needs_more_processing, pl1, result1), trace1, w1) \<Rightarrow>
          delegation_phase E self api_key needs_more_processing pl1 result1 trace1 w1)"

function Supervisor_loop ::
  "'w env \<Rightarrow> 'w supervisor \<Rightarrow> string \<Rightarrow> bool \<Rightarrow> nat \<Rightarrow> payload \<Rightarrow> response \<Rightarrow> exchange list
     \<Rightarrow> 'w \<Rightarrow> (raised + response) \<times> exchange list \<times> 'w" where
  "Supervisor_loop E self api_key needs_more_processing current_iteration pl result trace w =
     (if needs_more_processing \<and> current_iteration < max_iterations
      then (case loop_body E self api_key pl result trace w of
              (Inl x, trace', w') \<Rightarrow> (Inl x, trace', w')
            | (Inr (needs_more_processing', pl', result'), trace', w') \<Rightarrow>
                Supervisor_loop E self api_key needs_more_processing' (current_iteration + 1)
                  pl' result' trace' w')
      else (Inr result, trace, w))"
  by pat_completeness auto
termination
  by (relation "measure (\<lambda>(E, self, api_key, nm, cur, rest). max_iterations - cur)") auto

declare Supervisor_loop.simps [simp del]

definition Supervisor_call_orion_api ::
  "'w env \<Rightarrow> 'w supervisor \<Rightarrow> string \<Rightarrow> tool_info list \<Rightarrow> agent_info list
     \<Rightarrow> (string \<times> schema_entry) list option \<Rightarrow> 'w
     \<Rightarrow> (raised + response) \<times> exchange list \<times> 'w" where
  "Supervisor_call_orion_api E self p ts agents schema w =
     (case get_orion_key E of
        Inl e \<Rightarrow> (Inl (Exc e), [], w)
      | Inr api_key \<Rightarrow>
          (let pl = \<lparr>prompt = p, max_tokens = 1500, agent_type = Some ''supervisor'',
                     tools = Some ts, supervised_agents = Some agents,
                     output_schema = nonempty_schema schema, tool_results = None,
                     delegation_results = None\<rparr>
           in case requests_post E api_key pl w of
                (Inl e, w1) \<Rightarrow> (Inl (Exc e), [(pl, Inl e)], w1)
              | (Inr result, w1) \<Rightarrow>
                  Supervisor_loop E self api_key True 0 pl result [(pl, Inr result)] w1))"

text \<open>\<^verbatim>\<open>Supervisor.__init__\<close>, with the tools given as their registry entries.\<close>

definition Supervisor_init ::
  "string \<Rightarrow> string \<Rightarrow> (int \<times> 'w agent) list \<Rightarrow> model_type option \<Rightarrow> 'w tool list \<Rightarrow> bool
     \<Rightarrow> pyexn + 'w supervisor" where
  "Supervisor_init name instructions agents output_type ts require_output_type =
     (if require_output_type \<and> output_type = None
      then Inl (PyExn ''ValueError''
             (''output_type '' @ [CHR 0xE9] @ '' obrigat'' @ [CHR 0xF3]
              @ ''rio quando require_output_type=True''))
      else Inr \<lparr>sup_name = name, sup_instructions = instructions,
                sup_supervised_agents = agents, sup_output_type = output_type,
                sup_tools = ts, sup_require_output_type = require_output_type\<rparr>)"

text \<open>The description of a supervised agent sent to the backend.\<close>

definition agent_info_of :: "int \<times> 'w agent \<Rightarrow> agent_info" where
  "agent_info_of ia =
     (case snd ia of
        AnOperator operator \<Rightarrow>
          \<lparr>ai_id = fst ia, ai_name = op_name operator, ai_type = ''operator'',
           ai_instructions = op_instructions operator, ai_tools = None\<rparr>
      | AnAnalyst analyst \<Rightarrow>
          \<lparr>ai_id = fst ia, ai_name = an_name analyst, ai_type = ''analyst'',
           ai_instructions = an_instructions analyst,
           ai_tools = (if an_tools analyst \<noteq> []
                       then Some (map (\<lambda>t. (tool_name t, tool_description t)) (an_tools analyst))
                       else None)\<rparr>)"

text \<open>
  The body of the \<^verbatim>\<open>try\<close> in \<^verbatim>\<open>Supervisor.run\<close>: a temporary Analyst is built and
  its parser is called on the content.
\<close>

definition Supervisor_parse ::
  "pylib \<Rightarrow> 'w supervisor \<Rightarrow> string \<Rightarrow> model_type \<Rightarrow> pyexn + basemodel" where
  "Supervisor_parse L self text output_type =
     (case Analyst_init ''temp'' ''temp'' (Some output_type) ([] :: 'w tool list) False of
        Inl e \<Rightarrow> Inl e
      | Inr analyst_instance \<Rightarrow> parse_output_to_model L analyst_instance text output_type)"

definition Supervisor_run ::
  "'w env \<Rightarrow> 'w supervisor \<Rightarrow> string \<Rightarrow> 'w \<Rightarrow> (raised + run_result) \<times> 'w" where
  "Supervisor_run E self input_text w =
     (case Supervisor_call_orion_api E self
             (full_prompt (sup_name self) (sup_instructions self) input_text)
             (tools_info_of (sup_tools self))
             (map agent_info_of (sup_supervised_agents self))
             (map_option schema_of (sup_output_type self)) w of
        (Inl e, trace, w') \<Rightarrow> (Inl e, w')
      | (Inr r, trace, w') \<Rightarrow>
          (let result = AgentResult r
           in case sup_output_type self of
                None \<Rightarrow> (Inr (RAgentResult result), w')
              | Some output_type \<Rightarrow>
                  (case Supervisor_parse (lib E) self (ar_content result) output_type of
                     Inr inst \<Rightarrow> (Inr (RModel inst), w')
                   | Inl e \<Rightarrow>
                       if sup_require_output_type self
                       then (Inl (conversion_error output_type e), w')
                       else (Inr (RAgentResult result), w'))))"

section \<open>A concrete setting\<close>

text \<open>
  A small library, model, tool and backend on which the functions can be evaluated. The
  library functions are tables, written to agree with Python on the arguments that occur
  below: \<^verbatim>\<open>{"trend": "up"}\<close> is the only text that decodes; \<^verbatim>\<open>json.dumps\<close> puts
  a string without special characters in double quotes and refuses an object that is not
  a JSON value; \<^verbatim>\<open>re.search\<close> finds no match, which is so for the three patterns of
  a field on every text on which the scan is reached below (\<^verbatim>\<open>hello\<close> for the field
  \<^verbatim>\<open>trend\<close>, \<^verbatim>\<open>{"trend": "up"}\<close> for the field \<^verbatim>\<open>ticker\<close>).
\<close>

definition ex_lib :: pylib where
  \<open>ex_lib =
     \<lparr>json_loads = (\<lambda>s. if s = ''{"trend": "up"}'' then Inr (PDict [(''trend'', PStr ''up'')])
                         else Inl (PyExn ''JSONDecodeError''
                                ''Expecting value: line 1 column 1 (char 0)'')),
      json_dumps = (\<lambda>v. case v of
                           PStr s \<Rightarrow> Inr ([CHR 0x22] @ s @ [CHR 0x22])
                         | PObject c \<Rightarrow> Inl (PyExn ''TypeError''
                                  (''Object of type '' @ c @ '' is not JSON serializable''))
                         | _ \<Rightarrow> Inl (PyExn ''TypeError'' ''not in the table'')),
      re_search = (\<lambda>pattern text. Inr None),
      str_strip = (\<lambda>s. s),
      str_lower = (\<lambda>s. s),
      str_title = (\<lambda>s. s),
      py_float = (\<lambda>s. Inl (PyExn ''ValueError'' (''could not convert string to float: '' @ s))),
      py_int = (\<lambda>s. Inl (PyExn ''ValueError''
                         (''invalid literal for int() with base 10: '' @ s)))\<rparr>\<close>

text \<open>The model \<^verbatim>\<open>class Trend(BaseModel): trend: str\<close>; its constructor is given on
  dictionaries whose \<^verbatim>\<open>trend\<close>, when present, is a string.\<close>

definition field_required :: pyexn where
  "field_required =
     PyExn ''ValidationError''
       (''1 validation error for Trend'' @ [CHR 0x0A] @ ''trend'' @ [CHR 0x0A]
        @ ''  field required (type=value_error.missing)'')"

definition Trend :: model_type where
  "Trend =
     \<lparr>model_name = ''Trend'',
      model_fields = [(''trend'', \<lparr>field_type = ''<class 'str'>'', field_description = None\<rparr>)],
      model_new = (\<lambda>data. case data of
                     PDict d \<Rightarrow>
                       (case map_of d ''trend'' of
                          Some (PStr s) \<Rightarrow> Inr (BaseModel [(''trend'', PStr s)])
                        | _ \<Rightarrow> Inl field_required)
                   | _ \<Rightarrow> Inl (PyExn ''TypeError''
                            ''argument after ** must be a mapping''))\<rparr>"

text \<open>
  The tool \<^verbatim>\<open>get_price(ticker: str) -> float\<close> of the specification's scenario, with a
  function that raises \<^verbatim>\<open>RuntimeError("boom")\<close>. The world is the number of requests
  the backend has served.
\<close>

definition get_price_params :: model_type where
  "get_price_params =
     \<lparr>model_name = ''get_price_params'',
      model_fields = [(''ticker'', \<lparr>field_type = ''<class 'str'>'', field_description = None\<rparr>)],
      model_new = (\<lambda>data. case data of
                     PDict d \<Rightarrow>
                       (case map_of d ''ticker'' of
                          Some (PStr s) \<Rightarrow> Inr (BaseModel [(''ticker'', PStr s)])
                        | _ \<Rightarrow> Inl (PyExn ''ValidationError''
                                 (''1 validation error for get_price_params'' @ [CHR 0x0A]
                                  @ ''ticker'' @ [CHR 0x0A]
                                  @ ''  field required (type=value_error.missing)'')))
                   | _ \<Rightarrow> Inl (PyExn ''TypeError''
                            ''argument after ** must be a mapping''))\<rparr>"

definition get_price :: "nat tool" where
  "get_price =
     \<lparr>tool_function = (\<lambda>args w. (Inl (Exc (PyExn ''RuntimeError'' ''boom'')), w)),
      tool_name = ''get_price'', tool_description = ''Price of a ticker.'',
      tool_parameters = get_price_params\<rparr>"

definition get_price_call :: tool_call where
  "get_price_call =
     \<lparr>tc_id = ''call_1'', tc_name = ''get_price'',
      tc_arguments = Some (PDict [(''ticker'', PStr ''XYZ'')])\<rparr>"

text \<open>A supervisor with that tool and no supervised agent, and a delegation to an agent
  it does not have.\<close>

definition coordinator :: "nat supervisor" where
  "coordinator =
     \<lparr>sup_name = ''Coordenador'', sup_instructions = ''Coordene.'',
      sup_supervised_agents = [], sup_output_type = Some Trend, sup_tools = [get_price],
      sup_require_output_type = False\<rparr>"

definition stray_delegation :: delegation where
  "stray_delegation = \<lparr>dg_id = ''del_1'', dg_agent_id = 42, dg_input = Some ''resuma''\<rparr>"

text \<open>
  Three backends. The first always asks for the tool call and the delegation. The second
  asks for both in its first reply and answers in plain text afterwards. The third
  answers in plain text at once.
\<close>

definition both_response :: response where
  "both_response =
     \<lparr>content = Some ''working'', tool_calls = Some [get_price_call],
      agent_delegations = Some [stray_delegation]\<rparr>"

definition plain_response :: response where
  "plain_response = \<lparr>content = Some ''hello'', tool_calls = None, agent_delegations = None\<rparr>"

definition busy_backend :: "string \<Rightarrow> payload \<Rightarrow> nat \<Rightarrow> (pyexn + response) \<times> nat" where
  "busy_backend api_key pl n = (Inr both_response, Suc n)"

definition once_backend :: "string \<Rightarrow> payload \<Rightarrow> nat \<Rightarrow> (pyexn + response) \<times> nat" where
  "once_backend api_key pl n = (if n = 0 then Inr both_response else Inr plain_response, Suc n)"

definition plain_backend :: "string \<Rightarrow> payload \<Rightarrow> nat \<Rightarrow> (pyexn + response) \<times> nat" where
  "plain_backend api_key pl n = (Inr plain_response, Suc n)"

definition ex_env ::
  "(string \<Rightarrow> payload \<Rightarrow> nat \<Rightarrow> (pyexn + response) \<times> nat) \<Rightarrow> nat env" where
  "ex_env backend =
     \<lparr>lib = ex_lib, ORION_API_KEY = Some ''orion-key'', environ_ORION_API_KEY = None,
      requests_post = backend\<rparr>"

definition trend_analyst :: "nat analyst" where
  "trend_analyst =
     \<lparr>an_name = ''Analista'', an_instructions = ''Analise.'', an_output_type = Some Trend,
      an_tools = [get_price], an_require_output_type = True\<rparr>"

text \<open>A reply that delegates and asks for no tool.\<close>

definition delegating_response :: response where
  "delegating_response =
     \<lparr>content = None, tool_calls = None, agent_delegations = Some [stray_delegation]\<rparr>"

text \<open>Two readings of a trace: which result sets the payload of an exchange carries, and
  whether the trace ends with a given reply.\<close>

definition carries :: "exchange \<Rightarrow> bool \<times> bool" where
  "carries x = (tool_results (fst x) \<noteq> None, delegation_results (fst x) \<noteq> None)"

definition last_is :: "exchange list \<Rightarrow> response \<Rightarrow> bool" where
  "last_is tr r = (tr \<noteq> [] \<and> snd (last tr) = Inr r)"

text \<open>
  The tool \<^verbatim>\<open>shutdown()\<close>, whose function calls \<^verbatim>\<open>sys.exit(1)\<close>, and an Analyst that
  has it. \<^verbatim>\<open>SystemExit\<close> derives from \<^verbatim>\<open>BaseException\<close>, not from \<^verbatim>\<open>Exception\<close>.
\<close>

definition no_params :: model_type where
  "no_params =
     \<lparr>model_name = ''shutdown_params'', model_fields = [],
      model_new = (\<lambda>data. case data of
                     PDict d \<Rightarrow> Inr (BaseModel [])
                   | _ \<Rightarrow> Inl (PyExn ''TypeError''
                            ''argument after ** must be a mapping''))\<rparr>"

definition shutdown :: "nat tool" where
  "shutdown =
     \<lparr>tool_function = (\<lambda>args w. (Inl (BaseExc ''SystemExit'' ''1''), w)),
      tool_name = ''shutdown'', tool_description = ''Stops the process.'',
      tool_parameters = no_params\<rparr>"


definition janitor :: "nat analyst" where
  "janitor =
     \<lparr>an_name = ''Zelador'', an_instructions = ''Encerre.'', an_output_type = None,
      an_tools = [shutdown], an_require_output_type = False\<rparr>"

text \<open>A backend whose first reply delegates and asks for no tool, and which answers in
  plain text afterwards.\<close>

definition delegate_once_backend ::
  "string \<Rightarrow> payload \<Rightarrow> nat \<Rightarrow> (pyexn + response) \<times> nat" where
  "delegate_once_backend api_key pl n =
     (if n = 0 then Inr delegating_response else Inr plain_response, Suc n)"

text \<open>The delegation results that the payload of an exchange carries.\<close>

definition posted_delegation_results :: "exchange \<Rightarrow> delegation_result list option" where
  "posted_delegation_results x = delegation_results (fst x)"

section \<open>Extraction when building the model reads the world\<close>

text \<open>
  A pydantic model runs user code when it is built: a default factory, a validator. That
  code can read what is outside the data it is given (a counter, a clock, a random
  generator). A model class of this kind gives its constructor the world and returns it.
  The cascade below is \<^verbatim>\<open>_parse_output_to_model\<close> again, the same code as
  \<open>parse_cascade\<close>, with the world passed through every construction; the calls of
  \<^verbatim>\<open>json\<close>, \<^verbatim>\<open>re\<close> and the string conversions stay functions of their arguments.
\<close>

record 'w model_class =
  class_name :: string
  class_fields :: "(string \<times> field) list"
  class_new :: "pyval \<Rightarrow> 'w \<Rightarrow> (pyexn + basemodel) \<times> 'w"

definition direct_parse_in ::
  "pylib \<Rightarrow> 'w model_class \<Rightarrow> string \<Rightarrow> 'w \<Rightarrow> (pyexn + basemodel) \<times> 'w" where
  "direct_parse_in L model text w =
     (case json_loads L text of
        Inl e \<Rightarrow> (Inl e, w)
      | Inr data \<Rightarrow> class_new model data w)"

definition key_value_outcome_in ::
  "pylib \<Rightarrow> 'w model_class \<Rightarrow> string \<Rightarrow> 'w \<Rightarrow> outcome \<times> 'w" where
  "key_value_outcome_in L model output w =
     (case scan_fields L output (map fst (class_fields model)) [] of
        Inl e \<Rightarrow> (Failed (extraction_error e), w)
      | Inr data \<Rightarrow>
          (case class_new model (PDict data) w of
             (Inr inst, w') \<Rightarrow> (KeyValue inst, w')
           | (Inl e, w') \<Rightarrow> (Failed (extraction_error e), w')))"

definition parse_cascade_in ::
  "pylib \<Rightarrow> 'a analyst \<Rightarrow> string \<Rightarrow> 'w model_class \<Rightarrow> 'w \<Rightarrow> outcome \<times> 'w" where
  "parse_cascade_in L self output model w =
     (case direct_parse_in L model output w of
        (Inr inst, w1) \<Rightarrow> (Direct inst, w1)
      | (Inl _, w1) \<Rightarrow>
          (case embedded_block output of
             None \<Rightarrow> key_value_outcome_in L model output w1
           | Some json_str \<Rightarrow>
               (case direct_parse_in L model json_str w1 of
                  (Inr inst, w2) \<Rightarrow> (Embedded inst, w2)
                | (Inl _, w2) \<Rightarrow> key_value_outcome_in L model output w2)))"

text \<open>A model class whose constructor is a function of the data, as \<open>model_type\<close> has
  it.\<close>

definition pure_class :: "model_type \<Rightarrow> 'w model_class" where
  "pure_class m =
     \<lparr>class_name = model_name m, class_fields = model_fields m,
      class_new = (\<lambda>data w. (model_new m data, w))\<rparr>"

text \<open>
  The model \<^verbatim>\<open>class Ticket(BaseModel): number: int = Field(default_factory=next_number)\<close>,
  where \<^verbatim>\<open>next_number\<close> returns a global counter and increments it. The world is the
  counter. A key of the data that is not a field is ignored.
\<close>

definition Ticket :: "nat model_class" where
  "Ticket =
     \<lparr>class_name = ''Ticket'',
      class_fields = [(''number'', \<lparr>field_type = ''<class 'int'>'', field_description = None\<rparr>)],
      class_new = (\<lambda>data n. case data of
                     PDict d \<Rightarrow>
                       (case map_of d ''number'' of
                          None \<Rightarrow> (Inr (BaseModel [(''number'', PInt (int n))]), Suc n)
                        | Some (PInt i) \<Rightarrow> (Inr (BaseModel [(''number'', PInt i)]), n)
                        | Some _ \<Rightarrow>
                            (Inl (PyExn ''ValidationError''
                                   (''1 validation error for Ticket'' @ [CHR 0x0A] @ ''number''
                                    @ [CHR 0x0A]
                                    @ ''  value is not a valid integer (type=type_error.integer)'')),
                             n))
                   | _ \<Rightarrow> (Inl (PyExn ''TypeError''
                             ''argument after ** must be a mapping''), n))\<rparr>"

section \<open>Tool failures are data\<close>





section \<open>The extraction cascade\<close>

lemma direct_success_wins:
  "direct_parse L model text = Inr inst \<Longrightarrow> parse_cascade L self text model = Direct inst"
  by (simp add: parse_cascade_def)

lemma embedded_success:
  "direct_parse L model text = Inl e \<Longrightarrow> embedded_block text = Some js \<Longrightarrow>
   direct_parse L model js = Inr inst \<Longrightarrow> parse_cascade L self text model = Embedded inst"
  by (simp add: parse_cascade_def)

lemma prose_block: \<open>embedded_block ''Here: {"trend": "up"} ok'' = Some ''{"trend": "up"}''\<close>
  by (simp add: embedded_block_def str_find_def str_rfind_def str_slice_def)

lemma hello_direct:
  "direct_parse ex_lib Trend ''hello''
     = Inl (PyExn ''JSONDecodeError'' ''Expecting value: line 1 column 1 (char 0)'')"
  by (simp add: direct_parse_def ex_lib_def)

lemma hello_block: "embedded_block ''hello'' = None"
  by (simp add: embedded_block_def str_find_def str_rfind_def)

lemma hello_scan: "key_value_scan ex_lib Trend ''hello'' = Inl field_required"
  by (simp add: key_value_scan_def Trend_def patterns_def ex_lib_def)

text \<open>
  Claim C4. When the whole text does not decode as JSON, and the span \<open>js\<close> from its first
  \<^verbatim>\<open>{\<close> to its last \<^verbatim>\<open>}\<close> decodes and validates to an instance, the extraction
  returns that instance from its second strategy, and it is the result of extracting from
  \<open>js\<close> alone. The second strategy has no say when the first succeeds: a text that
  decodes and validates is answered by the first strategy.
\<close>

theorem embedded_block_extraction:
  assumes "json_loads L text = Inl e"
    and "embedded_block text = Some js"
    and "direct_parse L model js = Inr inst"
  shows "parse_cascade L self text model = Embedded inst
         \<and> parse_output_to_model L self text model = Inr inst
         \<and> parse_output_to_model L self text model = parse_output_to_model L self js model
         \<and> (\<forall>t i. direct_parse L model t = Inr i \<longrightarrow> parse_cascade L self t model = Direct i)"
proof -
  from assms(1) have d: "direct_parse L model text = Inl e"
    by (simp add: direct_parse_def)
  have c: "parse_cascade L self text model = Embedded inst"
    using d assms(2,3) by (rule embedded_success)
  have j: "parse_cascade L self js model = Direct inst"
    using assms(3) by (rule direct_success_wins)
  show ?thesis
    using c j by (simp add: parse_output_to_model_def direct_success_wins)
qed

text \<open>The scenario of the specification, with the model \<^verbatim>\<open>Trend\<close>: prose before and
  after one JSON object.\<close>

theorem embedded_block_extraction_witness:
  \<open>parse_cascade ex_lib trend_analyst ''Here: {"trend": "up"} ok'' Trend
     = Embedded (BaseModel [(''trend'', PStr ''up'')])
   \<and> parse_output_to_model ex_lib trend_analyst ''Here: {"trend": "up"} ok'' Trend
     = parse_output_to_model ex_lib trend_analyst ''{"trend": "up"}'' Trend\<close>
proof -
  have h1: \<open>json_loads ex_lib ''Here: {"trend": "up"} ok''
              = Inl (PyExn ''JSONDecodeError'' ''Expecting value: line 1 column 1 (char 0)'')\<close>
    by (simp add: ex_lib_def)
  have h3: \<open>direct_parse ex_lib Trend ''{"trend": "up"}''
              = Inr (BaseModel [(''trend'', PStr ''up'')])\<close>
    by (simp add: direct_parse_def ex_lib_def Trend_def)
  from embedded_block_extraction [OF h1 prose_block h3, of trend_analyst] show ?thesis
    by blast
qed

text \<open>
  Claim C5. When all three strategies fail (the first raises, the second has no span or
  raises on it, the third raises \<open>e3\<close>), the extraction raises a \<^verbatim>\<open>ValueError\<close> whose
  text is the fixed prefix of the source (\<^verbatim>\<open>... extrair dados estruturados:\<close>) followed
  by the text of \<open>e3\<close>, the last underlying error. Nothing else goes into the exception.
\<close>

theorem exhausted_cascade_error:
  assumes "direct_parse L model text = Inl e1"
    and "\<forall>js. embedded_block text = Some js \<longrightarrow> isl (direct_parse L model js)"
    and "key_value_scan L model text = Inl e3"
  shows "parse_output_to_model L self text model =
           Inl (PyExn ''ValueError''
                  (''N'' @ [CHR 0xE3] @ ''o foi poss'' @ [CHR 0xED]
                   @ ''vel extrair dados estruturados: '' @ exn_str e3))"
proof (cases "embedded_block text")
  case None
  with assms(1,3) show ?thesis
    by (simp add: parse_output_to_model_def parse_cascade_def extraction_error_def)
next
  case (Some js)
  with assms(2) obtain e2 where "direct_parse L model js = Inl e2"
    by (cases "direct_parse L model js") auto
  with Some assms(1,3) show ?thesis
    by (simp add: parse_output_to_model_def parse_cascade_def extraction_error_def)
qed

theorem exhausted_cascade_error_witness:
  "parse_output_to_model ex_lib trend_analyst ''hello'' Trend =
     Inl (PyExn ''ValueError''
            (''N'' @ [CHR 0xE3] @ ''o foi poss'' @ [CHR 0xED]
             @ ''vel extrair dados estruturados: 1 validation error for Trend'' @ [CHR 0x0A]
             @ ''trend'' @ [CHR 0x0A] @ ''  field required (type=value_error.missing)''))"
proof -
  have h2: "\<forall>js. embedded_block ''hello'' = Some js \<longrightarrow> isl (direct_parse ex_lib Trend js)"
    by (simp add: hello_block)
  from exhausted_cascade_error [OF hello_direct h2 hello_scan, of trend_analyst] show ?thesis
    by (simp add: field_required_def)
qed

text \<open>
  The original text is not in the exception: on the text \<^verbatim>\<open>hello\<close> and the model
  \<^verbatim>\<open>Trend\<close> all three strategies fail, and the text of the \<^verbatim>\<open>ValueError\<close> raised
  does not contain \<^verbatim>\<open>hello\<close>.
\<close>

theorem extraction_error_lacks_text_counterexample:
  "direct_parse ex_lib Trend ''hello''
     = Inl (PyExn ''JSONDecodeError'' ''Expecting value: line 1 column 1 (char 0)'')
   \<and> embedded_block ''hello'' = None
   \<and> key_value_scan ex_lib Trend ''hello'' = Inl field_required
   \<and> parse_output_to_model ex_lib trend_analyst ''hello'' Trend
       = Inl (extraction_error field_required)
   \<and> \<not> str_contains (exn_str (extraction_error field_required)) ''hello''"
  by (simp add: hello_direct hello_block hello_scan parse_output_to_model_def
      parse_cascade_def extraction_error_def field_required_def)

lemma temp_analyst:
  "Analyst_init ''temp'' ''temp'' (Some output_type) [] False =
     Inr \<lparr>an_name = ''temp'', an_instructions = ''temp'', an_output_type = Some output_type,
          an_tools = [], an_require_output_type = False\<rparr>"
  by (simp add: Analyst_init_def)

text \<open>
  Claim C9. When the text decodes as JSON but the model rejects the decoded value, nothing
  is raised by the first strategy: the outcome is that of the second strategy on the span
  between the braces, when there is a span that decodes and validates, and of the third
  strategy otherwise. An exception that leaves the extraction is the one built from the
  third strategy's error.
\<close>

theorem invalid_document_falls_through:
  assumes "json_loads L text = Inr data"
    and "model_new model data = Inl e"
  shows "parse_cascade L self text model =
           (case map_option (direct_parse L model) (embedded_block text) of
              Some (Inr inst) \<Rightarrow> Embedded inst
            | _ \<Rightarrow>
                (case key_value_scan L model text of
                   Inr inst \<Rightarrow> KeyValue inst
                 | Inl e3 \<Rightarrow> Failed (extraction_error e3)))
         \<and> (\<forall>x. parse_output_to_model L self text model = Inl x \<longrightarrow>
               (\<exists>e3. key_value_scan L model text = Inl e3 \<and> x = extraction_error e3))"
proof -
  from assms have d: "direct_parse L model text = Inl e"
    by (simp add: direct_parse_def)
  then have c: "parse_cascade L self text model =
           (case map_option (direct_parse L model) (embedded_block text) of
              Some (Inr inst) \<Rightarrow> Embedded inst
            | _ \<Rightarrow>
                (case key_value_scan L model text of
                   Inr inst \<Rightarrow> KeyValue inst
                 | Inl e3 \<Rightarrow> Failed (extraction_error e3)))"
    by (simp add: parse_cascade_def)
  have "\<forall>x. parse_output_to_model L self text model = Inl x \<longrightarrow>
               (\<exists>e3. key_value_scan L model text = Inl e3 \<and> x = extraction_error e3)"
    unfolding parse_output_to_model_def c
    by (auto split: option.splits sum.splits)
  with c show ?thesis by blast
qed

lemma up_block: \<open>embedded_block ''{"trend": "up"}'' = Some ''{"trend": "up"}''\<close>
  by (simp add: embedded_block_def str_find_def str_rfind_def str_slice_def)

text \<open>The text \<^verbatim>\<open>{"trend": "up"}\<close> decodes, and the model of \<^verbatim>\<open>get_price\<close>'s
  parameters rejects it, since \<^verbatim>\<open>ticker\<close> is missing.\<close>

theorem invalid_document_falls_through_witness:
  \<open>parse_cascade ex_lib trend_analyst ''{"trend": "up"}'' get_price_params
     = Failed (extraction_error (PyExn ''ValidationError''
                 (''1 validation error for get_price_params'' @ [CHR 0x0A]
                  @ ''ticker'' @ [CHR 0x0A] @ ''  field required (type=value_error.missing)'')))\<close>
proof -
  have h1: \<open>json_loads ex_lib ''{"trend": "up"}'' = Inr (PDict [(''trend'', PStr ''up'')])\<close>
    by (simp add: ex_lib_def)
  have h2: "model_new get_price_params (PDict [(''trend'', PStr ''up'')])
              = Inl (PyExn ''ValidationError''
                 (''1 validation error for get_price_params'' @ [CHR 0x0A]
                  @ ''ticker'' @ [CHR 0x0A] @ ''  field required (type=value_error.missing)''))"
    by (simp add: get_price_params_def)
  have k: \<open>key_value_scan ex_lib get_price_params ''{"trend": "up"}''
             = Inl (PyExn ''ValidationError''
                 (''1 validation error for get_price_params'' @ [CHR 0x0A]
                  @ ''ticker'' @ [CHR 0x0A] @ ''  field required (type=value_error.missing)''))\<close>
    by (simp add: key_value_scan_def get_price_params_def patterns_def ex_lib_def)
  have d: \<open>direct_parse ex_lib get_price_params ''{"trend": "up"}''
             = Inl (PyExn ''ValidationError''
                 (''1 validation error for get_price_params'' @ [CHR 0x0A]
                  @ ''ticker'' @ [CHR 0x0A] @ ''  field required (type=value_error.missing)''))\<close>
    by (simp add: direct_parse_def h1 h2)
  from invalid_document_falls_through [OF h1 h2, of trend_analyst] show ?thesis
    by (simp add: up_block d k)
qed

text \<open>
  Claim C10. What \<^verbatim>\<open>Supervisor.run\<close> computes from the content and the output type,
  through a temporary Analyst, is what the parser of any Analyst computes from them.
\<close>

theorem supervisor_extraction_is_analyst_extraction:
  "Supervisor_parse L (supervisor :: 'a supervisor) text output_type
     = parse_output_to_model L (analyst :: 'b analyst) text output_type"
  by (simp add: Supervisor_parse_def temp_analyst parse_output_to_model_def parse_cascade_def)

theorem supervisor_extraction_is_analyst_extraction_witness:
  "Supervisor_parse ex_lib coordinator ''hello'' Trend
     = parse_output_to_model ex_lib trend_analyst ''hello'' Trend"
  by (rule supervisor_extraction_is_analyst_extraction)

section \<open>Determinism of the extraction\<close>

lemma pure_class_direct:
  "direct_parse_in L (pure_class m) text w = (direct_parse L m text, w)"
  by (simp add: direct_parse_in_def direct_parse_def pure_class_def split: sum.splits)

lemma pure_class_key_value:
  "key_value_outcome_in L (pure_class m) text w =
     (case key_value_scan L m text of
        Inr inst \<Rightarrow> KeyValue inst
      | Inl e \<Rightarrow> Failed (extraction_error e), w)"
  by (simp add: key_value_outcome_in_def key_value_scan_def pure_class_def split: sum.splits)

lemma pure_class_cascade:
  "parse_cascade_in L self text (pure_class m) w = (parse_cascade L self text m, w)"
  by (simp add: parse_cascade_in_def parse_cascade_def pure_class_direct pure_class_key_value
      split: sum.splits option.splits)

lemma direct_parse_in_result:
  assumes "\<forall>data w w'. fst (class_new model data w) = fst (class_new model data w')"
  shows "fst (direct_parse_in L model text w) = fst (direct_parse_in L model text w')"
  using assms by (simp add: direct_parse_in_def split: sum.splits)

lemma key_value_outcome_in_result:
  assumes "\<forall>data w w'. fst (class_new model data w) = fst (class_new model data w')"
  shows "fst (key_value_outcome_in L model text w) = fst (key_value_outcome_in L model text w')"
proof (cases "scan_fields L text (map fst (class_fields model)) []")
  case (Inl e)
  then show ?thesis
    by (simp add: key_value_outcome_in_def)
next
  case (Inr data)
  obtain r v where a: "class_new model (PDict data) w = (r, v)"
    by (cases "class_new model (PDict data) w")
  obtain r' v' where b: "class_new model (PDict data) w' = (r', v')"
    by (cases "class_new model (PDict data) w'")
  from assms a b have "r = r'"
    by (metis fst_conv)
  with Inr a b show ?thesis
    by (simp add: key_value_outcome_in_def split: sum.splits)
qed

text \<open>
  Claim C8. For a model class whose construction gives the same result on the same
  data whatever the world is (no default factory or validator that reads a state or a
  random source), the extraction returns from the same strategy with the same instance,
  or raises the same exception, on the same text and model: whatever the world is when it
  is called and whichever Analyst object it is called on. The cascade adds no state of
  its own. When the constructor is a function of the data, this extraction is
  \<open>parse_cascade\<close> and leaves the world as it was.
\<close>

theorem cascade_adds_no_state:
  assumes "\<forall>data w w'. fst (class_new model data w) = fst (class_new model data w')"
  shows "fst (parse_cascade_in L (self1 :: 'a analyst) text model w)
           = fst (parse_cascade_in L (self2 :: 'b analyst) text model w')
         \<and> (\<forall>m v. parse_cascade_in L self1 text (pure_class m) v
                    = (parse_cascade L self1 text m, v))"
proof -
  have d: "fst (direct_parse_in L model t v) = fst (direct_parse_in L model t v')" for t v v'
    using assms by (rule direct_parse_in_result)
  have k: "fst (key_value_outcome_in L model text v) = fst (key_value_outcome_in L model text v')"
    for v v'
    using assms by (rule key_value_outcome_in_result)
  obtain r1 v1 where a1: "direct_parse_in L model text w = (r1, v1)"
    by (cases "direct_parse_in L model text w")
  obtain r1' v1' where b1: "direct_parse_in L model text w' = (r1', v1')"
    by (cases "direct_parse_in L model text w'")
  from d [of "text" w "w'"] a1 b1 have r1: "r1' = r1"
    by simp
  have main: "fst (parse_cascade_in L self1 text model w)
                = fst (parse_cascade_in L self2 text model w')"
  proof (cases r1)
    case (Inr inst)
    with a1 b1 r1 show ?thesis
      by (simp add: parse_cascade_in_def)
  next
    case (Inl e1)
    show ?thesis
    proof (cases "embedded_block text")
      case None
      with Inl a1 b1 r1 k [of v1 "v1'"] show ?thesis
        by (simp add: parse_cascade_in_def)
    next
      case (Some js)
      obtain r2 v2 where a2: "direct_parse_in L model js v1 = (r2, v2)"
        by (cases "direct_parse_in L model js v1")
      obtain r2' v2' where b2: "direct_parse_in L model js v1' = (r2', v2')"
        by (cases "direct_parse_in L model js v1'")
      from d [of js v1 "v1'"] a2 b2 have r2: "r2' = r2"
        by simp
      show ?thesis
      proof (cases r2)
        case (Inr inst)
        with Inl Some a1 b1 r1 a2 b2 r2 show ?thesis
          by (simp add: parse_cascade_in_def)
      next
        case e2: (Inl e2)
        with Inl Some a1 b1 r1 a2 b2 r2 k [of v2 "v2'"] show ?thesis
          by (simp add: parse_cascade_in_def)
      qed
    qed
  qed
  from main show ?thesis
    by (simp add: pure_class_cascade)
qed

text \<open>The model \<^verbatim>\<open>Trend\<close>, whose constructor is a function of the data, and two
  worlds.\<close>

theorem cascade_adds_no_state_witness:
  \<open>fst (parse_cascade_in ex_lib trend_analyst ''Here: {"trend": "up"} ok''
          (pure_class Trend) (0::nat))
     = fst (parse_cascade_in ex_lib janitor ''Here: {"trend": "up"} ok'' (pure_class Trend) (7::nat))\<close>
proof -
  have h: "\<forall>data w w'. fst (class_new (pure_class Trend :: nat model_class) data w)
                          = fst (class_new (pure_class Trend) data w')"
    by (simp add: pure_class_def)
  from cascade_adds_no_state [OF h] show ?thesis
    by blast
qed

text \<open>
  With the model \<^verbatim>\<open>Ticket\<close>, whose default factory reads a counter, two evaluations on
  the same text and the same model, one after the other, return different instances.
\<close>

theorem default_factory_counterexample:
  \<open>json_loads ex_lib ''{"trend": "up"}'' = Inr (PDict [(''trend'', PStr ''up'')])
   \<and> parse_cascade_in ex_lib trend_analyst ''{"trend": "up"}'' Ticket 0
       = (Direct (BaseModel [(''number'', PInt 0)]), 1)
   \<and> parse_cascade_in ex_lib trend_analyst ''{"trend": "up"}'' Ticket 1
       = (Direct (BaseModel [(''number'', PInt 1)]), 2)
   \<and> BaseModel [(''number'', PInt 0)] \<noteq> BaseModel [(''number'', PInt 1)]\<close>
  by (simp add: parse_cascade_in_def direct_parse_in_def ex_lib_def Ticket_def)

section \<open>Unfolding the loop\<close>

lemma Supervisor_loop_stop:
  "\<not> (nm \<and> cur < max_iterations) \<Longrightarrow>
   Supervisor_loop E self k nm cur pl result tr w = (Inr result, tr, w)"
  by (subst Supervisor_loop.simps) auto

lemma Supervisor_loop_step:
  "nm \<Longrightarrow> cur < max_iterations \<Longrightarrow>
   Supervisor_loop E self k nm cur pl result tr w =
     (case loop_body E self k pl result tr w of
        (Inl e, tr', w') \<Rightarrow> (Inl e, tr', w')
      | (Inr (nm', pl', result'), tr', w') \<Rightarrow>
          Supervisor_loop E self k nm' (cur + 1) pl' result' tr' w')"
  by (subst Supervisor_loop.simps) simp

section \<open>The end of a run\<close>

text \<open>
  Claim C7. In \<^verbatim>\<open>Analyst.run\<close> and in \<^verbatim>\<open>Supervisor.run\<close>, when an output type is set,
  the backend exchange ends with a reply and the extraction from the reply's content
  raises \<open>e\<close>: with \<^verbatim>\<open>require_output_type\<close> the run raises a \<^verbatim>\<open>ValueError\<close> made
  from \<open>e\<close>; without it the run returns the \<^verbatim>\<open>AgentResult\<close> of the reply.
\<close>

theorem extraction_failure_policy:
  assumes "an_output_type analyst = Some output_type"
    and "Analyst_call_orion_api E analyst
           (full_prompt (an_name analyst) (an_instructions analyst) input_text)
           (tools_info_of (an_tools analyst))
           (map_option schema_of (an_output_type analyst)) w = (Inr r, w')"
    and "parse_output_to_model (lib E) analyst (ar_content (AgentResult r)) output_type = Inl e"
    and "sup_output_type supervisor = Some output_type2"
    and "Supervisor_call_orion_api E2 supervisor
           (full_prompt (sup_name supervisor) (sup_instructions supervisor) input_text2)
           (tools_info_of (sup_tools supervisor))
           (map agent_info_of (sup_supervised_agents supervisor))
           (map_option schema_of (sup_output_type supervisor)) v = (Inr r2, trace, v')"
    and "Supervisor_parse (lib E2) supervisor (ar_content (AgentResult r2)) output_type2 = Inl e2"
  shows "Analyst_run E analyst input_text w =
           (if an_require_output_type analyst
            then (Inl (conversion_error output_type e), w')
            else (Inr (RAgentResult (AgentResult r)), w'))
         \<and> Supervisor_run E2 supervisor input_text2 v =
           (if sup_require_output_type supervisor
            then (Inl (conversion_error output_type2 e2), v')
            else (Inr (RAgentResult (AgentResult r2)), v'))"
proof -
  from assms(2) have call:
    "Analyst_call_orion_api E analyst
           (full_prompt (an_name analyst) (an_instructions analyst) input_text)
           (tools_info_of (an_tools analyst)) (Some (schema_of output_type)) w = (Inr r, w')"
    by (simp add: assms(1))
  have a: "Analyst_run E analyst input_text w =
           (if an_require_output_type analyst
            then (Inl (conversion_error output_type e), w')
            else (Inr (RAgentResult (AgentResult r)), w'))"
    by (simp add: Analyst_run_def assms(1) call assms(3))
  from assms(5) have call2:
    "Supervisor_call_orion_api E2 supervisor
           (full_prompt (sup_name supervisor) (sup_instructions supervisor) input_text2)
           (tools_info_of (sup_tools supervisor))
           (map agent_info_of (sup_supervised_agents supervisor))
           (Some (schema_of output_type2)) v = (Inr r2, trace, v')"
    by (simp add: assms(4))
  have s: "Supervisor_run E2 supervisor input_text2 v =
           (if sup_require_output_type supervisor
            then (Inl (conversion_error output_type2 e2), v')
            else (Inr (RAgentResult (AgentResult r2)), v'))"
    by (simp add: Supervisor_run_def assms(4) call2 assms(6))
  from a s show ?thesis by blast
qed

lemma ex_key: "get_orion_key (ex_env b) = Inr ''orion-key''"
  by (simp add: get_orion_key_def ex_env_def)

lemma plain_analyst_call:
  "Analyst_call_orion_api (ex_env plain_backend) trend_analyst p ts sch 0 = (Inr plain_response, 1)"
  by (simp add: Analyst_call_orion_api_def ex_key) (simp add: ex_env_def plain_backend_def plain_response_def)

lemma plain_loop:
  "Supervisor_loop E self k True 0 pl plain_response tr w = (Inr plain_response, tr, w)"
  by (simp add: Supervisor_loop_step Supervisor_loop_stop loop_body_def tool_phase_def
      delegation_phase_def plain_response_def max_iterations_def)

lemma plain_supervisor_call:
  "Supervisor_call_orion_api (ex_env plain_backend) coordinator p ts ags sch 0 =
     (Inr plain_response,
      [(\<lparr>prompt = p, max_tokens = 1500, agent_type = Some ''supervisor'',
                     tools = Some ts, supervised_agents = Some ags,
                     output_schema = nonempty_schema sch, tool_results = None,
                     delegation_results = None\<rparr>, Inr plain_response)], 1)"
  by (simp add: Supervisor_call_orion_api_def ex_key)
     (simp add: ex_env_def plain_backend_def plain_loop)

lemma hello_parse:
  "parse_output_to_model ex_lib (a :: 'a analyst) ''hello'' Trend = Inl (extraction_error field_required)"
  by (simp add: parse_output_to_model_def parse_cascade_def direct_parse_def embedded_block_def
      str_find_def str_rfind_def key_value_scan_def Trend_def patterns_def ex_lib_def)

text \<open>The backend answers \<^verbatim>\<open>hello\<close>: the Analyst, which requires its output type,
  raises; the Supervisor, which does not, returns the raw result.\<close>

theorem extraction_failure_policy_witness:
  "Analyst_run (ex_env plain_backend) trend_analyst ''x'' 0
     = (Inl (conversion_error Trend (extraction_error field_required)), 1)
   \<and> Supervisor_run (ex_env plain_backend) coordinator ''x'' 0
     = (Inr (RAgentResult (AgentResult plain_response)), 1)"
proof -
  have c: "ar_content (AgentResult plain_response) = ''hello''"
    by (simp add: AgentResult_def plain_response_def)
  have h1: "an_output_type trend_analyst = Some Trend"
    by (simp add: trend_analyst_def)
  have h3: "parse_output_to_model (lib (ex_env plain_backend)) trend_analyst
              (ar_content (AgentResult plain_response)) Trend
            = Inl (extraction_error field_required)"
    by (simp add: c hello_parse ex_env_def)
  have h4: "sup_output_type coordinator = Some Trend"
    by (simp add: coordinator_def)
  have h6: "Supervisor_parse (lib (ex_env plain_backend)) coordinator
              (ar_content (AgentResult plain_response)) Trend
            = Inl (extraction_error field_required)"
    by (simp add: c Supervisor_parse_def Analyst_init_def hello_parse ex_env_def)
  have r1: "an_require_output_type trend_analyst" and r2: "\<not> sup_require_output_type coordinator"
    by (simp_all add: trend_analyst_def coordinator_def)
  from extraction_failure_policy [OF h1 plain_analyst_call h3 h4 plain_supervisor_call h6,
      of "''x''" "''x''"] r1 r2
  show ?thesis by simp
qed

section \<open>The orchestration loop\<close>

text \<open>What one phase can do to the trace.\<close>

lemma tool_phase_shape:
  assumes "tool_phase E self k pl result tr w = (x, tr', w')"
  shows "(tr' = tr \<and> x = Inr (False, pl, result))
         \<or> (tr' = tr \<and> (\<exists>y. x = Inl y))
         \<or> (\<exists>pl1 e. tr' = tr @ [(pl1, Inl e)] \<and> x = Inl (Exc e))
         \<or> (\<exists>pl1 r1. tr' = tr @ [(pl1, Inr r1)] \<and> x = Inr (True, pl1, r1))"
  using assms
  by (auto simp: tool_phase_def Let_def split: option.splits prod.splits sum.splits)

lemma delegation_phase_shape:
  assumes "delegation_phase E self k nm pl result tr w = (x, tr', w')"
  shows "(tr' = tr \<and> x = Inr (nm, pl, result))
         \<or> (tr' = tr \<and> (\<exists>y. x = Inl y))
         \<or> (\<exists>pl1 e. tr' = tr @ [(pl1, Inl e)] \<and> x = Inl (Exc e))
         \<or> (\<exists>pl1 r1. tr' = tr @ [(pl1, Inr r1)] \<and> x = Inr (True, pl1, r1))"
  using assms
  by (auto simp: delegation_phase_def Let_def split: option.splits prod.splits sum.splits)

lemma loop_body_length:
  assumes "loop_body E self k pl result tr w = (x, tr', w')"
  shows "length tr' \<le> length tr + 2"
proof (cases "tool_phase E self k pl result tr w")
  case (fields y tr1 w1)
  show ?thesis
  proof (cases y)
    case (Inl e)
    with fields assms tool_phase_shape [OF fields] show ?thesis
      by (auto simp: loop_body_def)
  next
    case (Inr t)
    obtain nm1 pl1 r1 where t: "t = (nm1, pl1, r1)" by (cases t)
    from fields Inr t assms
    have d: "delegation_phase E self k nm1 pl1 r1 tr1 w1 = (x, tr', w')"
      by (simp add: loop_body_def)
    from tool_phase_shape [OF fields] delegation_phase_shape [OF d] show ?thesis
      by auto
  qed
qed

lemma loop_body_last:
  assumes "loop_body E self k pl result tr w = (Inr (nm', pl', r'), tr', w')"
    and "last_is tr result"
  shows "last_is tr' r'"
proof (cases "tool_phase E self k pl result tr w")
  case (fields y tr1 w1)
  show ?thesis
  proof (cases y)
    case (Inl e)
    with fields assms show ?thesis
      by (simp add: loop_body_def)
  next
    case (Inr t)
    obtain nm1 pl1 r1 where t: "t = (nm1, pl1, r1)" by (cases t)
    from fields Inr t assms
    have d: "delegation_phase E self k nm1 pl1 r1 tr1 w1 = (Inr (nm', pl', r'), tr', w')"
      by (simp add: loop_body_def)
    from tool_phase_shape [OF fields] Inr t assms(2) have l1: "last_is tr1 r1"
      by (auto simp: last_is_def)
    from delegation_phase_shape [OF d] l1 show ?thesis
      by (auto simp: last_is_def)
  qed
qed

lemma loop_trace_bound:
  "Supervisor_loop E self k nm cur pl result tr w = (out, tr', w') \<Longrightarrow>
   length tr' \<le> length tr + 2 * (max_iterations - cur)"
proof (induction E self k nm cur pl result tr w rule: Supervisor_loop.induct)
  case (1 E self k nm cur pl result tr w)
  show ?case
  proof (cases "nm \<and> cur < max_iterations")
    case False
    with "1.prems" show ?thesis
      by (simp add: Supervisor_loop_stop)
  next
    case True
    obtain x tr1 w1 where b: "loop_body E self k pl result tr w = (x, tr1, w1)"
      by (cases "loop_body E self k pl result tr w")
    note len = loop_body_length [OF b]
    show ?thesis
    proof (cases x)
      case (Inl e)
      with True b "1.prems" len show ?thesis
        by (auto simp: Supervisor_loop_step)
    next
      case (Inr t)
      obtain nm1 pl1 r1 where t: "t = (nm1, pl1, r1)" by (cases t)
      from True b Inr t "1.prems"
      have "Supervisor_loop E self k nm1 (cur + 1) pl1 r1 tr1 w1 = (out, tr', w')"
        by (simp add: Supervisor_loop_step)
      from "1.IH" [OF True b [symmetric] _ _ _ _ this] Inr t
      have "length tr' \<le> length tr1 + 2 * (max_iterations - (cur + 1))"
        by simp
      with len True show ?thesis by arith
    qed
  qed
qed

lemma loop_returns_last:
  "Supervisor_loop E self k nm cur pl result tr w = (Inr r, tr', w') \<Longrightarrow> last_is tr result \<Longrightarrow>
   last_is tr' r"
proof (induction E self k nm cur pl result tr w rule: Supervisor_loop.induct)
  case (1 E self k nm cur pl result tr w)
  show ?case
  proof (cases "nm \<and> cur < max_iterations")
    case False
    with "1.prems" show ?thesis
      by (auto simp: Supervisor_loop_stop)
  next
    case True
    obtain x tr1 w1 where b: "loop_body E self k pl result tr w = (x, tr1, w1)"
      by (cases "loop_body E self k pl result tr w")
    show ?thesis
    proof (cases x)
      case (Inl e)
      with True b "1.prems" show ?thesis
        by (auto simp: Supervisor_loop_step)
    next
      case (Inr t)
      obtain nm1 pl1 r1 where t: "t = (nm1, pl1, r1)" by (cases t)
      from True b Inr t "1.prems"
      have s: "Supervisor_loop E self k nm1 (cur + 1) pl1 r1 tr1 w1 = (Inr r, tr', w')"
        by (simp add: Supervisor_loop_step)
      from b Inr t have "loop_body E self k pl result tr w = (Inr (nm1, pl1, r1), tr1, w1)"
        by simp
      from loop_body_last [OF this "1.prems"(2)] have "last_is tr1 r1" .
      from "1.IH" [OF True b [symmetric] _ _ _ _ s this] Inr t
      show ?thesis by simp
    qed
  qed
qed

text \<open>
  Claim C1. One call of \<^verbatim>\<open>Supervisor._call_orion_api\<close> makes at most 21 exchanges with
  the backend: the first request, then at most two in each of at most ten iterations of
  the loop (one after the tool calls, one after the delegations). Whenever the call
  returns, what it returns is the last reply received, as it came. With
  \<^verbatim>\<open>current_iteration\<close> at ten the loop stops and returns \<^verbatim>\<open>result\<close>, whatever
  \<^verbatim>\<open>needs_more_processing\<close> is.
\<close>

theorem round_trip_bound:
  "length (fst (snd (Supervisor_call_orion_api E self p ts agents schema w))) \<le> 21
   \<and> (\<forall>r. fst (Supervisor_call_orion_api E self p ts agents schema w) = Inr r \<longrightarrow>
         fst (snd (Supervisor_call_orion_api E self p ts agents schema w)) \<noteq> []
         \<and> snd (last (fst (snd (Supervisor_call_orion_api E self p ts agents schema w)))) = Inr r)
   \<and> Supervisor_loop E self api_key needs_more_processing 10 pl result trace w2
       = (Inr result, trace, w2)"
proof -
  obtain out tr' w' where c: "Supervisor_call_orion_api E self p ts agents schema w = (out, tr', w')"
    by (cases "Supervisor_call_orion_api E self p ts agents schema w")
  have len: "length tr' \<le> 21"
  proof (cases "get_orion_key E")
    case (Inl e)
    with c show ?thesis by (auto simp: Supervisor_call_orion_api_def)
  next
    case (Inr k)
    let ?pl = "\<lparr>prompt = p, max_tokens = 1500, agent_type = Some ''supervisor'',
                 tools = Some ts, supervised_agents = Some agents,
                 output_schema = nonempty_schema schema, tool_results = None,
                 delegation_results = None\<rparr>"
    obtain y w1 where q: "requests_post E k ?pl w = (y, w1)"
      by (cases "requests_post E k ?pl w")
    show ?thesis
    proof (cases y)
      case (Inl e)
      with c Inr q show ?thesis by (auto simp: Supervisor_call_orion_api_def)
    next
      case (Inr r0)
      with c \<open>get_orion_key E = Inr k\<close> q
      have "Supervisor_loop E self k True 0 ?pl r0 [(?pl, Inr r0)] w1 = (out, tr', w')"
        by (simp add: Supervisor_call_orion_api_def Let_def)
      from loop_trace_bound [OF this] show ?thesis
        by (simp add: max_iterations_def)
    qed
  qed
  have ret: "\<forall>r. out = Inr r \<longrightarrow> tr' \<noteq> [] \<and> snd (last tr') = Inr r"
  proof (cases "get_orion_key E")
    case (Inl e)
    with c show ?thesis by (auto simp: Supervisor_call_orion_api_def)
  next
    case (Inr k)
    let ?pl = "\<lparr>prompt = p, max_tokens = 1500, agent_type = Some ''supervisor'',
                 tools = Some ts, supervised_agents = Some agents,
                 output_schema = nonempty_schema schema, tool_results = None,
                 delegation_results = None\<rparr>"
    obtain y w1 where q: "requests_post E k ?pl w = (y, w1)"
      by (cases "requests_post E k ?pl w")
    show ?thesis
    proof (cases y)
      case (Inl e)
      with c Inr q show ?thesis by (auto simp: Supervisor_call_orion_api_def)
    next
      case (Inr r0)
      with c \<open>get_orion_key E = Inr k\<close> q
      have "Supervisor_loop E self k True 0 ?pl r0 [(?pl, Inr r0)] w1 = (out, tr', w')"
        by (simp add: Supervisor_call_orion_api_def Let_def)
      from loop_returns_last [of E self k True 0 ?pl r0 "[(?pl, Inr r0)]" w1 _ tr' w']
        this show ?thesis
        by (auto simp: last_is_def)
    qed
  qed
  have cap: "Supervisor_loop E self api_key needs_more_processing 10 pl result trace w2
       = (Inr result, trace, w2)"
    by (rule Supervisor_loop_stop) (simp add: max_iterations_def)
  from len ret cap show ?thesis
    by (simp add: c)
qed

lemma busy_length:
  "length (fst (snd (Supervisor_call_orion_api (ex_env busy_backend) coordinator ''p'' [] [] None 0))) = 21"
  by code_simp

lemma busy_result:
  "fst (Supervisor_call_orion_api (ex_env busy_backend) coordinator ''p'' [] [] None 0) = Inr both_response"
  by code_simp

text \<open>A backend that always asks for a tool call and a delegation.\<close>

theorem round_trip_bound_witness:
  "length (fst (snd (Supervisor_call_orion_api (ex_env busy_backend) coordinator ''p'' [] [] None 0)))
     \<le> 21
   \<and> snd (last (fst (snd
         (Supervisor_call_orion_api (ex_env busy_backend) coordinator ''p'' [] [] None 0))))
     = Inr both_response"
  using round_trip_bound [of "ex_env busy_backend" coordinator "''p''" "[]" "[]" None 0]
    busy_result
  by simp

text \<open>With that backend the call makes 21 exchanges, more than ten, and returns the reply
  to the last of them.\<close>

theorem round_trips_exceed_ten_counterexample:
  "length (fst (snd (Supervisor_call_orion_api (ex_env busy_backend) coordinator ''p'' [] [] None 0)))
     = 21
   \<and> \<not> length (fst (snd
           (Supervisor_call_orion_api (ex_env busy_backend) coordinator ''p'' [] [] None 0))) \<le> 10
   \<and> fst (Supervisor_call_orion_api (ex_env busy_backend) coordinator ''p'' [] [] None 0)
     = Inr both_response"
  by (simp add: busy_length busy_result)

section \<open>A reply with tool calls and delegations\<close>

text \<open>
  When the reply in hand has tool calls, the body of the loop does not depend on the
  delegations of that reply: the reply to the tool results has replaced it before the
  delegations are looked for.
\<close>

lemma tool_calls_shadow_delegations:
  "tool_calls result = Some tcs \<Longrightarrow>
   loop_body E self k pl (result\<lparr>agent_delegations := ds\<rparr>) trace w
     = loop_body E self k pl result trace w"
  by (simp add: loop_body_def tool_phase_def)

lemma unknown_agent_result:
  assumes "\<forall>a\<in>set (sup_supervised_agents self). fst a \<noteq> dg_agent_id d"
  shows "execute_agent_delegation E self d w = (Inr (agent_not_found (dg_agent_id d)), w)"
proof -
  from assms have "find (\<lambda>a. fst a = dg_agent_id d) (sup_supervised_agents self) = None"
    by (auto simp: find_None_iff)
  then show ?thesis
    by (simp add: execute_agent_delegation_def Let_def)
qed

lemma once_carries:
  "map carries (fst (snd (Supervisor_call_orion_api (ex_env once_backend) coordinator ''p'' [] [] None 0)))
    = [(False, False), (True, False)]"
  by code_simp

lemma once_first:
  "snd (hd (fst (snd
        (Supervisor_call_orion_api (ex_env once_backend) coordinator ''p'' [] [] None 0))))
       = Inr both_response"
  by code_simp

lemma delegate_once_carries:
  "map carries (fst (snd
      (Supervisor_call_orion_api (ex_env delegate_once_backend) coordinator ''p'' [] [] None 0)))
    = [(False, False), (False, True)]"
  by code_simp

lemma once_posted:
  "map posted_delegation_results (fst (snd
      (Supervisor_call_orion_api (ex_env once_backend) coordinator ''p'' [] [] None 0)))
    = [None, None]"
  by code_simp

lemma once_result:
  "fst (Supervisor_call_orion_api (ex_env once_backend) coordinator ''p'' [] [] None 0)
     = Inr plain_response"
  by code_simp

lemma delegate_once_posted:
  "map posted_delegation_results (fst (snd
      (Supervisor_call_orion_api (ex_env delegate_once_backend) coordinator ''p'' [] [] None 0)))
    = [None, Some [\<lparr>delegation_id = ''del_1'', dr_result = agent_not_found 42\<rparr>]]"
  by code_simp

text \<open>
  Claim C2. The backend's first reply has a tool call and a delegation, and its later
  replies are plain text. The run makes two requests: the first, and one that carries the
  tool results and no delegation results. The delegation of the first reply is never run
  and no request carries both result sets. When the first reply has the delegation alone,
  the delegation is run and its result is posted.
\<close>

theorem mixed_reply_drops_delegations:
  "tool_calls both_response = Some [get_price_call]
   \<and> agent_delegations both_response = Some [stray_delegation]
   \<and> snd (hd (fst (snd
        (Supervisor_call_orion_api (ex_env once_backend) coordinator ''p'' [] [] None 0))))
       = Inr both_response
   \<and> map carries (fst (snd
        (Supervisor_call_orion_api (ex_env once_backend) coordinator ''p'' [] [] None 0)))
       = [(False, False), (True, False)]
   \<and> agent_delegations delegating_response = Some [stray_delegation]
   \<and> map carries (fst (snd
        (Supervisor_call_orion_api (ex_env delegate_once_backend) coordinator ''p'' [] [] None 0)))
       = [(False, False), (False, True)]"
  by (simp add: once_first once_carries delegate_once_carries)
     (simp add: both_response_def delegating_response_def)

text \<open>
  Claim C6. The delegation of that first reply names the agent 42, which the coordinator
  does not supervise. Run by itself it gives the string \<^verbatim>\<open>Erro: Agente com ID 42 ...\<close>;
  in the run above it gives nothing: no request carries a delegation result, and the run
  ends with the plain reply. When the first reply has the delegation alone, the string is
  posted as the delegation's result and the loop goes on.
\<close>

theorem mixed_reply_loses_delegation_error:
  "find (\<lambda>a. fst a = dg_agent_id stray_delegation) (sup_supervised_agents coordinator) = None
   \<and> execute_agent_delegation (ex_env once_backend) coordinator stray_delegation 1
       = (Inr (''Erro: Agente com ID 42 n'' @ [CHR 0xE3] @ ''o encontrado''), 1)
   \<and> agent_delegations both_response = Some [stray_delegation]
   \<and> map posted_delegation_results (fst (snd
        (Supervisor_call_orion_api (ex_env once_backend) coordinator ''p'' [] [] None 0)))
       = [None, None]
   \<and> fst (Supervisor_call_orion_api (ex_env once_backend) coordinator ''p'' [] [] None 0)
       = Inr plain_response
   \<and> map posted_delegation_results (fst (snd
        (Supervisor_call_orion_api (ex_env delegate_once_backend) coordinator ''p'' [] [] None 0)))
       = [None, Some [\<lparr>delegation_id = ''del_1'',
                       dr_result = ''Erro: Agente com ID 42 n'' @ [CHR 0xE3] @ ''o encontrado''\<rparr>]]"
proof -
  have u: "\<forall>a\<in>set (sup_supervised_agents coordinator). fst a \<noteq> dg_agent_id stray_delegation"
    by (simp add: coordinator_def)
  have n: "agent_not_found 42 = ''Erro: Agente com ID 42 n'' @ [CHR 0xE3] @ ''o encontrado''"
    by (simp add: agent_not_found_def str_int_def)
  have i: "dg_agent_id stray_delegation = 42"
    by (simp add: stray_delegation_def)
  from unknown_agent_result [OF u, of "ex_env once_backend" 1] i n
  have e: "execute_agent_delegation (ex_env once_backend) coordinator stray_delegation 1
             = (Inr (''Erro: Agente com ID 42 n'' @ [CHR 0xE3] @ ''o encontrado''), 1)"
    by simp
  have f: "find (\<lambda>a. fst a = dg_agent_id stray_delegation) (sup_supervised_agents coordinator)
             = None"
    by (simp add: coordinator_def)
  have b: "agent_delegations both_response = Some [stray_delegation]"
    by (simp add: both_response_def)
  from f e b once_posted once_result delegate_once_posted n show ?thesis
    by simp
qed

end
